theory Spec2Isabelle
  imports Complex_Main
begin

section \<open>Values, errors and the data provider\<close>

text \<open>
  The dashboard of \<^verbatim>\<open>app.py\<close> reads four tables per ticker from the market-data provider:
  the summary dictionary \<^verbatim>\<open>info\<close> and the three statements \<^verbatim>\<open>balance_sheet\<close>,
  \<^verbatim>\<open>financials\<close> and \<^verbatim>\<open>cashflow\<close>. Numbers are modelled as exact reals with Python's
  arithmetic on them: \<^verbatim>\<open>a / b\<close> raises \<^verbatim>\<open>ZeroDivisionError\<close> when \<^verbatim>\<open>b\<close> is zero, and a
  missing value is Python's \<^verbatim>\<open>None\<close>. Rounding of binary floating point and not-a-number
  entries of a statement are outside this model.

  A statement is the map from a row label to the value in its first column
  (\<^verbatim>\<open>frame.loc[label].iloc[0]\<close>); a label outside the domain is a label that is not in
  \<^verbatim>\<open>frame.index\<close>. The summary dictionary is read through two typed views, one for its
  numeric keys and one for its text keys.
\<close>

datatype py_error = ZeroDivisionError | TypeError | SourceError string

record raw_financials =
  info_num :: "string \<rightharpoonup> real"
  info_str :: "string \<rightharpoonup> string"
  balance_sheet :: "string \<rightharpoonup> real"
  financials :: "string \<rightharpoonup> real"
  cashflow :: "string \<rightharpoonup> real"

text \<open>
  \<^verbatim>\<open>yf.Ticker(t)\<close> followed by the reads of its tables either delivers the tables or
  raises; a provider is the function from the ticker to that outcome.
\<close>

type_synonym provider = "string \<Rightarrow> py_error + raw_financials"

text \<open>\<^verbatim>\<open>d.get(k, default)\<close>, and \<^verbatim>\<open>frame.loc[k].iloc[0] if k in frame.index else default\<close>.\<close>

definition get_or :: "('k \<rightharpoonup> 'v) \<Rightarrow> 'k \<Rightarrow> 'v \<Rightarrow> 'v" where
  "get_or d k dflt = (case d k of None \<Rightarrow> dflt | Some v \<Rightarrow> v)"

text \<open>Python's true division.\<close>

definition py_div :: "real \<Rightarrow> real \<Rightarrow> py_error + real" where
  "py_div a b = (if b = 0 then Inl ZeroDivisionError else Inr (a / b))"

text \<open>Sequencing of a step that may raise with the rest of the block.\<close>

definition and_then :: "py_error + 'a \<Rightarrow> ('a \<Rightarrow> py_error + 'b) \<Rightarrow> py_error + 'b" where
  "and_then m f = (case m of Inl e \<Rightarrow> Inl e | Inr v \<Rightarrow> f v)"

text \<open>
  The module globals \<^verbatim>\<open>Rf\<close>, \<^verbatim>\<open>Rm\<close> and \<^verbatim>\<open>Tc\<close>, which \<^verbatim>\<open>main\<close> overwrites from the
  sidebar. Every function below receives them, as every function of the module can read
  them.
\<close>

record wacc_params =
  Rf :: real
  Rm :: real
  Tc :: real

definition initial_params :: wacc_params where
  "initial_params = \<lparr>Rf = 0.0435, Rm = 0.085, Tc = 0.21\<rparr>"

section \<open>WACC and ROIC\<close>

text \<open>The local variables of \<^verbatim>\<open>calcular_wacc_y_roic\<close> when its \<^verbatim>\<open>try\<close> block reaches \<^verbatim>\<open>return\<close>.\<close>

record wacc_locals =
  market_cap :: real
  beta :: real
  ke :: real
  deuda_total :: real
  efectivo :: real
  patrimonio :: real
  gastos_intereses :: real
  ebt :: real
  impuestos :: real
  ebit :: real
  kd :: real
  tasa_impuestos :: real
  total_capital :: real
  wacc :: real
  nopat :: real
  capital_invertido :: real
  roic :: real
  diferencia_roic_wacc :: real
  creando_valor :: bool

definition rf :: real where
  "rf = 0.02"

definition equity_risk_premium :: real where
  "equity_risk_premium = 0.05"

text \<open>The body of the \<^verbatim>\<open>try\<close> block, after the tables have been fetched (lines 33 to 72).\<close>

definition wacc_roic_body :: "wacc_params \<Rightarrow> raw_financials \<Rightarrow> py_error + wacc_locals" where
  "wacc_roic_body g raw =
    (let market_cap = get_or (info_num raw) ''marketCap'' 0;
         beta = get_or (info_num raw) ''beta'' 1;
         ke = rf + beta * equity_risk_premium;
         deuda_total = get_or (balance_sheet raw) ''Total Debt'' 0;
         efectivo = get_or (balance_sheet raw) ''Cash And Cash Equivalents'' 0;
         patrimonio = get_or (balance_sheet raw) ''Common Stock Equity'' 0;
         gastos_intereses = get_or (financials raw) ''Interest Expense'' 0;
         ebt = get_or (financials raw) ''Ebt'' 0;
         impuestos = get_or (financials raw) ''Income Tax Expense'' 0;
         ebit = get_or (financials raw) ''EBIT'' 0
     in
     and_then (if deuda_total \<noteq> 0 then py_div gastos_intereses deuda_total else Inr 0) (\<lambda>kd.
     and_then (if ebt \<noteq> 0 then py_div impuestos ebt else Inr 0.21) (\<lambda>tasa_impuestos.
     let total_capital = market_cap + deuda_total in
     and_then (py_div market_cap total_capital) (\<lambda>equity_weight.
     and_then (py_div deuda_total total_capital) (\<lambda>debt_weight.
     let wacc = (equity_weight * ke) + (debt_weight * kd * (1 - tasa_impuestos));
         nopat = ebit * (1 - tasa_impuestos);
         capital_invertido = patrimonio + (deuda_total - efectivo) in
     and_then (if capital_invertido \<noteq> 0 then py_div nopat capital_invertido else Inr 0) (\<lambda>roic.
     let diferencia_roic_wacc = roic - wacc;
         creando_valor = (roic > wacc) in
     Inr \<lparr>market_cap = market_cap, beta = beta, ke = ke, deuda_total = deuda_total,
          efectivo = efectivo, patrimonio = patrimonio,
          gastos_intereses = gastos_intereses, ebt = ebt, impuestos = impuestos,
          ebit = ebit, kd = kd, tasa_impuestos = tasa_impuestos,
          total_capital = total_capital, wacc = wacc, nopat = nopat,
          capital_invertido = capital_invertido, roic = roic,
          diferencia_roic_wacc = diferencia_roic_wacc,
          creando_valor = creando_valor\<rparr>))))))"

text \<open>
  The whole \<^verbatim>\<open>try\<close> block: the fetch of the ticker's tables, then the body. The pauses
  (\<^verbatim>\<open>time.sleep\<close>) have no effect on the values.
\<close>

definition wacc_roic_try :: "wacc_params \<Rightarrow> provider \<Rightarrow> string \<Rightarrow> py_error + wacc_locals" where
  "wacc_roic_try g yf ticker = and_then (yf ticker) (wacc_roic_body g)"

text \<open>
  \<^verbatim>\<open>calcular_wacc_y_roic\<close>: the three returned values, or three times \<^verbatim>\<open>None\<close> from the
  handler \<^verbatim>\<open>except Exception\<close>, which reports the error on the page and returns. The
  result type has no error branch: whatever the block raises ends in the handler. The flag
  \<^verbatim>\<open>creando_valor\<close> is computed and not returned.
\<close>

definition calcular_wacc_y_roic ::
    "wacc_params \<Rightarrow> provider \<Rightarrow> string \<Rightarrow> real option \<times> real option \<times> real option" where
  "calcular_wacc_y_roic g yf ticker =
    (case wacc_roic_try g yf ticker of
       Inr l \<Rightarrow> (Some (wacc l), Some (roic l), Some (diferencia_roic_wacc l))
     | Inl e \<Rightarrow> (None, None, None))"

section \<open>The ratios of one ticker\<close>

text \<open>
  The dictionary that \<^verbatim>\<open>obtener_datos_financieros\<close> returns on success, one field per
  key, in the order of the source. The keys \<^verbatim>\<open>P/E\<close>, \<^verbatim>\<open>P/B\<close>, \<^verbatim>\<open>P/FCF\<close>,
  \<^verbatim>\<open>Dividend Year\<close>, \<^verbatim>\<open>Dividend Yield %\<close>, \<^verbatim>\<open>LtDebt/Eq\<close>, \<^verbatim>\<open>Debt/Eq\<close> and the two
  accented keys (the country, and \<^verbatim>\<open>Creacion de Valor (WACC vs ROIC)\<close>) are spelt as
  identifiers. The seven columns that \<^verbatim>\<open>main\<close> later rewrites as percentage strings have
  the type parameter \<open>'p\<close>: \<open>real option\<close> in the dictionary, \<open>cell\<close> in the table.
\<close>

record 'p ticker_row =
  Ticker :: string
  Nombre :: string
  Sector :: string
  Pais :: string
  Industria :: string
  Precio :: "real option"
  P_E :: "real option"
  P_B :: "real option"
  P_FCF :: "real option"
  Dividend_Year :: "real option"
  Dividend_Yield :: 'p
  Payout_Ratio :: "real option"
  ROA :: 'p
  ROE :: 'p
  Current_Ratio :: "real option"
  Quick_Ratio :: "real option"
  LtDebt_Eq :: "real option"
  Debt_Eq :: "real option"
  Oper_Margin :: 'p
  Profit_Margin :: 'p
  WACC :: 'p
  ROIC :: 'p
  Creacion_de_Valor :: "real option"

text \<open>
  The two dictionaries of the source: the row, or \<^verbatim>\<open>{"Ticker": ticker, "Error": str(e)}\<close>.
\<close>

datatype ticker_result = Row "real option ticker_row" | Error string py_error

text \<open>Truth value of a number or \<^verbatim>\<open>None\<close> in a condition.\<close>

definition truthy :: "real option \<Rightarrow> bool" where
  "truthy v = (case v of None \<Rightarrow> False | Some x \<Rightarrow> x \<noteq> 0)"

text \<open>True division of two values that may be \<^verbatim>\<open>None\<close>.\<close>

definition py_truediv :: "real option \<Rightarrow> real option \<Rightarrow> py_error + real option" where
  "py_truediv a b =
    (case a of None \<Rightarrow> Inl TypeError
     | Some x \<Rightarrow> (case b of None \<Rightarrow> Inl TypeError
                 | Some y \<Rightarrow> and_then (py_div x y) (\<lambda>q. Inr (Some q))))"

text \<open>Line 120: \<^verbatim>\<open>pfcf = price / (fcf / shares) if fcf and shares else None\<close>.\<close>

definition price_to_fcf :: "real option \<Rightarrow> real option \<Rightarrow> real option \<Rightarrow> py_error + real option" where
  "price_to_fcf price fcf shares =
    (if truthy fcf \<and> truthy shares
     then and_then (py_truediv fcf shares) (\<lambda>fcf_per_share. py_truediv price fcf_per_share)
     else Inr None)"

text \<open>The \<^verbatim>\<open>try\<close> block of \<^verbatim>\<open>obtener_datos_financieros\<close> (lines 81 to 149).\<close>

definition obtener_try ::
    "wacc_params \<Rightarrow> provider \<Rightarrow> string \<Rightarrow> py_error + real option ticker_row" where
  "obtener_try g yf ticker =
    and_then (yf ticker) (\<lambda>stock.
    let info = info_num stock;
        cf = cashflow stock;
        price = info ''currentPrice'';
        name = get_or (info_str stock) ''longName'' ticker;
        sector = get_or (info_str stock) ''sector'' ''N/D'';
        country = get_or (info_str stock) ''country'' ''N/D'';
        industry = get_or (info_str stock) ''industry'' ''N/D'';
        pe = info ''trailingPE'';
        pb = info ''priceToBook'';
        dividend = info ''dividendRate'';
        dividend_yield = info ''dividendYield'';
        payout = info ''payoutRatio'';
        roa = info ''returnOnAssets'';
        roe = info ''returnOnEquity'';
        current_ratio = info ''currentRatio'';
        quick_ratio = info ''quickRatio'';
        ltde = info ''longTermDebtToEquity'';
        de = info ''debtToEquity'';
        op_margin = info ''operatingMargins'';
        profit_margin = info ''profitMargins'';
        fcf = cf ''Free Cash Flow'';
        shares = info ''sharesOutstanding''
    in
    and_then (price_to_fcf price fcf shares) (\<lambda>pfcf.
    let (wacc, roic, diferencia_roic_wacc) = calcular_wacc_y_roic g yf ticker in
    Inr \<lparr>Ticker = ticker, Nombre = name, Sector = sector, Pais = country,
         Industria = industry, Precio = price, P_E = pe, P_B = pb, P_FCF = pfcf,
         Dividend_Year = dividend, Dividend_Yield = dividend_yield,
         Payout_Ratio = payout, ROA = roa, ROE = roe, Current_Ratio = current_ratio,
         Quick_Ratio = quick_ratio, LtDebt_Eq = ltde, Debt_Eq = de,
         Oper_Margin = op_margin, Profit_Margin = profit_margin,
         WACC = wacc, ROIC = roic, Creacion_de_Valor = diferencia_roic_wacc\<rparr>))"

text \<open>\<^verbatim>\<open>obtener_datos_financieros\<close>: the block and its handler \<^verbatim>\<open>except Exception\<close>.\<close>

definition obtener_datos_financieros :: "wacc_params \<Rightarrow> provider \<Rightarrow> string \<Rightarrow> ticker_result" where
  "obtener_datos_financieros g yf ticker =
    (case obtener_try g yf ticker of Inr d \<Rightarrow> Row d | Inl e \<Rightarrow> Error ticker e)"

section \<open>The batch loop of \<^verbatim>\<open>main\<close>\<close>

text \<open>
  \<^verbatim>\<open>resultados\<close> is a dictionary: keys keep the position of their first insertion, and an
  assignment to a key that is present replaces its value where it stands. It is modelled
  as an association list with distinct keys.
\<close>

type_synonym resultados = "(string \<times> ticker_result) list"

fun dict_set :: "('k \<times> 'v) list \<Rightarrow> 'k \<Rightarrow> 'v \<Rightarrow> ('k \<times> 'v) list" where
  "dict_set [] k v = [(k, v)]"
| "dict_set ((k', v') # kvs) k v =
     (if k' = k then (k, v) # kvs else (k', v') # dict_set kvs k v)"

text \<open>\<^verbatim>\<open>list(d.values())\<close>.\<close>

definition dict_values :: "('k \<times> 'v) list \<Rightarrow> 'v list" where
  "dict_values d = map snd d"

text \<open>
  The provider may answer differently each time it is asked. \<open>w n\<close> is the provider as it
  answers while the ticker at position \<open>n\<close> of the list (counted from 0) is processed; the
  two fetches of one ticker (in \<^verbatim>\<open>obtener_datos_financieros\<close> and in
  \<^verbatim>\<open>calcular_wacc_y_roic\<close>) see the same answer.
\<close>

type_synonym world = "nat \<Rightarrow> provider"

definition batch_size :: nat where
  "batch_size = 10"

text \<open>
  The inner loop \<^verbatim>\<open>for i, t in enumerate(batch_tickers)\<close>: \<open>pos\<close> is \<^verbatim>\<open>batch_start + i\<close>.
\<close>

fun procesar_lote :: "wacc_params \<Rightarrow> world \<Rightarrow> nat \<Rightarrow> string list \<Rightarrow> resultados \<Rightarrow> resultados" where
  "procesar_lote g w pos [] res = res"
| "procesar_lote g w pos (t # ts) res =
     procesar_lote g w (Suc pos) ts (dict_set res t (obtener_datos_financieros g (w pos) t))"

text \<open>The outer loop \<^verbatim>\<open>for batch_start in range(0, len(tickers), batch_size)\<close>.\<close>

function procesar_lotes ::
    "wacc_params \<Rightarrow> world \<Rightarrow> string list \<Rightarrow> nat \<Rightarrow> resultados \<Rightarrow> resultados" where
  "procesar_lotes g w tickers batch_start res =
    (if batch_start < length tickers
     then (let batch_end = min (batch_start + batch_size) (length tickers);
               batch_tickers = take (batch_end - batch_start) (drop batch_start tickers)
           in procesar_lotes g w tickers (batch_start + batch_size)
                (procesar_lote g w batch_start batch_tickers res))
     else res)"
  by pat_completeness auto
termination
  by (relation "measure (\<lambda>(g, w, tickers, batch_start, res). length tickers - batch_start)")
     (auto simp: batch_size_def)

declare procesar_lotes.simps [simp del]

definition procesar :: "wacc_params \<Rightarrow> world \<Rightarrow> string list \<Rightarrow> resultados" where
  "procesar g w tickers = procesar_lotes g w tickers 0 []"

section \<open>The table\<close>

text \<open>\<^verbatim>\<open>"Error" not in d\<close>.\<close>

fun sin_error :: "ticker_result \<Rightarrow> bool" where
  "sin_error (Row d) = True"
| "sin_error (Error t e) = False"

text \<open>\<^verbatim>\<open>pd.DataFrame(datos_validos)\<close>: one table row per dictionary without the key \<^verbatim>\<open>Error\<close>.\<close>

fun data_frame :: "ticker_result list \<Rightarrow> real option ticker_row list" where
  "data_frame [] = []"
| "data_frame (Row d # ds) = d # data_frame ds"
| "data_frame (Error t e # ds) = data_frame ds"

text \<open>
  A cell of a percentage column after line 222: the text \<^verbatim>\<open>N/D\<close>, or a percentage with
  two decimals. \<open>Pct n\<close> stands for the text that shows \<open>n / 100\<close> followed by the percent
  sign, so \<open>Pct 1234\<close> is \<^verbatim>\<open>12.34%\<close>.
\<close>

datatype cell = ND | Pct int

text \<open>Rounding to the nearest integer, a tie to the even one, as the format does.\<close>

definition round_half_even :: "real \<Rightarrow> int" where
  "round_half_even x =
    (let f = \<lfloor>x\<rfloor>; d = x - of_int f
     in if d < 1 / 2 then f else if 1 / 2 < d then f + 1 else if even f then f else f + 1)"

text \<open>\<^verbatim>\<open>f"{x:.2%}" if pd.notnull(x) else "N/D"\<close>.\<close>

definition fmt_pct :: "real option \<Rightarrow> cell" where
  "fmt_pct x = (case x of None \<Rightarrow> ND | Some v \<Rightarrow> Pct (round_half_even (v * 100 * 100)))"

text \<open>The loop over \<^verbatim>\<open>porcentajes\<close> (lines 219 to 222), row by row.\<close>

definition formatear :: "real option ticker_row \<Rightarrow> cell ticker_row" where
  "formatear d =
    \<lparr>Ticker = Ticker d, Nombre = Nombre d, Sector = Sector d, Pais = Pais d,
     Industria = Industria d, Precio = Precio d, P_E = P_E d, P_B = P_B d,
     P_FCF = P_FCF d, Dividend_Year = Dividend_Year d,
     Dividend_Yield = fmt_pct (Dividend_Yield d), Payout_Ratio = Payout_Ratio d,
     ROA = fmt_pct (ROA d), ROE = fmt_pct (ROE d), Current_Ratio = Current_Ratio d,
     Quick_Ratio = Quick_Ratio d, LtDebt_Eq = LtDebt_Eq d, Debt_Eq = Debt_Eq d,
     Oper_Margin = fmt_pct (Oper_Margin d), Profit_Margin = fmt_pct (Profit_Margin d),
     WACC = fmt_pct (WACC d), ROIC = fmt_pct (ROIC d),
     Creacion_de_Valor = Creacion_de_Valor d\<rparr>"

section \<open>\<^verbatim>\<open>main\<close>\<close>

text \<open>Line 175: the text of the sidebar becomes the list of tickers (ASCII input).\<close>

fun split_on :: "char \<Rightarrow> string \<Rightarrow> string list" where
  "split_on c [] = [[]]"
| "split_on c (x # xs) =
     (if x = c then [] # split_on c xs
      else (case split_on c xs of [] \<Rightarrow> [[x]] | p # ps \<Rightarrow> (x # p) # ps))"

definition is_space :: "char \<Rightarrow> bool" where
  "is_space c = (c \<in> set [CHR '' '', CHR 0x09, CHR 0x0A, CHR 0x0B, CHR 0x0C, CHR 0x0D,
                          CHR 0x1C, CHR 0x1D, CHR 0x1E, CHR 0x1F])"

definition strip :: "string \<Rightarrow> string" where
  "strip s = rev (dropWhile is_space (rev (dropWhile is_space s)))"

definition upper_char :: "char \<Rightarrow> char" where
  "upper_char c =
    (let n = (of_char c :: nat) in if 97 \<le> n \<and> n \<le> 122 then char_of (n - 32) else c)"

definition upper :: "string \<Rightarrow> string" where
  "upper s = map upper_char s"

definition parse_tickers :: "string \<Rightarrow> nat \<Rightarrow> string list" where
  "parse_tickers tickers_input max_tickers =
    take max_tickers
      (map (\<lambda>t. upper (strip t)) (filter (\<lambda>t. strip t \<noteq> []) (split_on CHR '','' tickers_input)))"

text \<open>What the sidebar holds when the script runs, and whether the button was pressed.\<close>

record sidebar =
  tickers_input :: string
  max_tickers :: nat
  rf_input :: real
  rm_input :: real
  tc_input :: real
  analizar :: bool

text \<open>
  How a run of \<^verbatim>\<open>main\<close> ends, up to the table of line 222: nothing to do, the warning of
  line 179, the error of line 210 (the spec's \<^verbatim>\<open>EmptyResultError\<close>), or the formatted
  table. The drawing of the table and of the charts is not modelled.
\<close>

datatype outcome = Idle | Sin_tickers | EmptyResultError | Tabla "cell ticker_row list"

text \<open>Lines 169 to 172: the three globals are overwritten with the inputs, as fractions.\<close>

definition sidebar_params :: "sidebar \<Rightarrow> wacc_params" where
  "sidebar_params ui =
    \<lparr>Rf = rf_input ui / 100, Rm = rm_input ui / 100, Tc = tc_input ui / 100\<rparr>"

definition main :: "world \<Rightarrow> sidebar \<Rightarrow> outcome" where
  "main w ui =
    (let g = sidebar_params ui;
         tickers = parse_tickers (tickers_input ui) (max_tickers ui)
     in if analizar ui
        then (if tickers = [] then Sin_tickers
              else (let resultados = procesar g w tickers
                    in if resultados \<noteq> []
                       then (let datos = dict_values resultados;
                                 datos_validos = filter sin_error datos
                             in if datos_validos = [] then EmptyResultError
                                else Tabla (map formatear (data_frame datos_validos)))
                       else Idle))
        else Idle)"

section \<open>Functions used in the statements\<close>

text \<open>The row of a result, when it has one; and the provider that always delivers the same tables.\<close>

fun fila :: "ticker_result \<Rightarrow> real option ticker_row option" where
  "fila (Row d) = Some d"
| "fila (Error t e) = None"

definition siempre :: "raw_financials \<Rightarrow> provider" where
  "siempre raw t = Inr raw"

text \<open>
  Two functions in which the properties of duplicated tickers are stated: the elements of a
  list in the order of their first occurrence, and the position (from 0) of the last
  occurrence of an element.
\<close>

fun primeras :: "'a list \<Rightarrow> 'a list" where
  "primeras [] = []"
| "primeras (x # xs) = x # removeAll x (primeras xs)"

fun ultima_pos :: "'a list \<Rightarrow> 'a \<Rightarrow> nat" where
  "ultima_pos [] x = 0"
| "ultima_pos (y # ys) x = (if x \<in> set ys then Suc (ultima_pos ys x) else 0)"

section \<open>Example inputs\<close>

text \<open>Concrete tables and settings on which the theorems below are instantiated.\<close>

definition ejemplo_vacio :: raw_financials where
  "ejemplo_vacio =
    \<lparr>info_num = Map.empty, info_str = Map.empty, balance_sheet = Map.empty,
     financials = Map.empty, cashflow = Map.empty\<rparr>"

definition ejemplo_capital :: raw_financials where
  "ejemplo_capital =
    \<lparr>info_num = [''marketCap'' \<mapsto> 1000, ''beta'' \<mapsto> 1, ''currentPrice'' \<mapsto> 5],
     info_str = Map.empty, balance_sheet = Map.empty, financials = Map.empty,
     cashflow = Map.empty\<rparr>"

definition ejemplo_capital_locals :: wacc_locals where
  "ejemplo_capital_locals =
    \<lparr>market_cap = 1000, beta = 1, ke = 0.07, deuda_total = 0,
     efectivo = 0, patrimonio = 0, gastos_intereses = 0, ebt = 0,
     impuestos = 0, ebit = 0, kd = 0, tasa_impuestos = 0.21,
     total_capital = 1000, wacc = 0.07, nopat = 0,
     capital_invertido = 0, roic = 0, diferencia_roic_wacc = - 0.07,
     creando_valor = False\<rparr>"

definition otros_params :: wacc_params where
  "otros_params = \<lparr>Rf = 0.1, Rm = 0.2, Tc = 0.3\<rparr>"

text \<open>Tables without a price, with a price, and with a free cash flow of zero.\<close>

definition ejemplo_sin_precio :: raw_financials where
  "ejemplo_sin_precio =
    \<lparr>info_num = [''marketCap'' \<mapsto> 1000, ''sharesOutstanding'' \<mapsto> 10],
     info_str = Map.empty, balance_sheet = Map.empty, financials = Map.empty,
     cashflow = [''Free Cash Flow'' \<mapsto> 100]\<rparr>"

definition ejemplo_con_precio :: raw_financials where
  "ejemplo_con_precio =
    \<lparr>info_num = [''marketCap'' \<mapsto> 1000, ''sharesOutstanding'' \<mapsto> 10, ''currentPrice'' \<mapsto> 5],
     info_str = Map.empty, balance_sheet = Map.empty, financials = Map.empty,
     cashflow = [''Free Cash Flow'' \<mapsto> 100]\<rparr>"

definition ejemplo_fcf_cero :: raw_financials where
  "ejemplo_fcf_cero =
    \<lparr>info_num = [''marketCap'' \<mapsto> 1000, ''sharesOutstanding'' \<mapsto> 10, ''currentPrice'' \<mapsto> 5],
     info_str = Map.empty, balance_sheet = Map.empty, financials = Map.empty,
     cashflow = [''Free Cash Flow'' \<mapsto> 0]\<rparr>"



text \<open>
  Three worlds: one where the ticker \<^verbatim>\<open>BAD\<close> cannot be fetched, one where nothing can,
  and one where only the first fetch of the run fails. And a sidebar with two tickers.
\<close>

definition mundo_bad :: world where
  "mundo_bad n t = (if t = ''BAD'' then Inl (SourceError ''sin datos'') else Inr ejemplo_capital)"

definition mundo_caido :: world where
  "mundo_caido n t = Inl (SourceError ''sin datos'')"

definition mundo_cambia :: world where
  "mundo_cambia n t = (if n = 0 then Inl (SourceError ''sin datos'') else Inr ejemplo_capital)"

definition sidebar_ejemplo :: sidebar where
  "sidebar_ejemplo =
    \<lparr>tickers_input = ''bad1, bad2'', max_tickers = 50, rf_input = 4.35, rm_input = 8.5,
     tc_input = 21, analizar = True\<rparr>"

section \<open>The calculator in closed form\<close>

lemma and_then_if:
  "and_then (if c then Inr a else Inr b) f = f (if c then a else b)"
  by (simp add: and_then_def)

lemma and_then_Inr: "and_then (Inr a) f = f a"
  by (simp add: and_then_def)

lemma and_then_Inl: "and_then (Inl e) f = Inl e"
  by (simp add: and_then_def)

lemma py_div_guarded: "(if b \<noteq> 0 then py_div a b else Inr c) = Inr (if b \<noteq> 0 then a / b else c)"
  by (simp add: py_div_def)

lemma wacc_roic_body_eq:
  fixes raw :: raw_financials
  defines "E \<equiv> get_or (info_num raw) ''marketCap'' 0"
    and "b \<equiv> get_or (info_num raw) ''beta'' 1"
    and "D \<equiv> get_or (balance_sheet raw) ''Total Debt'' 0"
    and "cash \<equiv> get_or (balance_sheet raw) ''Cash And Cash Equivalents'' 0"
    and "eq \<equiv> get_or (balance_sheet raw) ''Common Stock Equity'' 0"
    and "gi \<equiv> get_or (financials raw) ''Interest Expense'' 0"
    and "pre \<equiv> get_or (financials raw) ''Ebt'' 0"
    and "tax \<equiv> get_or (financials raw) ''Income Tax Expense'' 0"
    and "op \<equiv> get_or (financials raw) ''EBIT'' 0"
  defines "k_e \<equiv> rf + b * equity_risk_premium"
    and "k_d \<equiv> (if D \<noteq> 0 then gi / D else 0)"
    and "t \<equiv> (if pre \<noteq> 0 then tax / pre else 0.21)"
  defines "wa \<equiv> (E / (E + D)) * k_e + ((D / (E + D)) * k_d * (1 - t))"
    and "ci \<equiv> eq + (D - cash)"
  defines "ro \<equiv> (if ci \<noteq> 0 then op * (1 - t) / ci else 0)"
  shows "wacc_roic_body g raw =
    (if E + D = 0 then Inl ZeroDivisionError
     else Inr \<lparr>market_cap = E, beta = b, ke = k_e, deuda_total = D,
          efectivo = cash, patrimonio = eq,
          gastos_intereses = gi, ebt = pre, impuestos = tax,
          ebit = op, kd = k_d, tasa_impuestos = t,
          total_capital = E + D, wacc = wa, nopat = op * (1 - t),
          capital_invertido = ci, roic = ro,
          diferencia_roic_wacc = ro - wa,
          creando_valor = (ro > wa)\<rparr>)"
  unfolding wacc_roic_body_def Let_def py_div_guarded and_then_Inr
  unfolding E_def [symmetric] b_def [symmetric] D_def [symmetric] cash_def [symmetric]
    eq_def [symmetric] gi_def [symmetric] pre_def [symmetric] tax_def [symmetric]
    op_def [symmetric]
  unfolding k_e_def [symmetric] k_d_def [symmetric] t_def [symmetric]
  unfolding ci_def [symmetric]
  unfolding ro_def wa_def
  by (cases "E + D = 0"; cases "ci = 0") (simp_all add: py_div_def and_then_def)


lemma wacc_roic_body_Inr:
  assumes "wacc_roic_body g raw = Inr l"
  shows "market_cap l = get_or (info_num raw) ''marketCap'' 0"
    and "beta l = get_or (info_num raw) ''beta'' 1"
    and "deuda_total l = get_or (balance_sheet raw) ''Total Debt'' 0"
    and "ebt l = get_or (financials raw) ''Ebt'' 0"
    and "ebit l = get_or (financials raw) ''EBIT'' 0"
    and "impuestos l = get_or (financials raw) ''Income Tax Expense'' 0"
    and "gastos_intereses l = get_or (financials raw) ''Interest Expense'' 0"
    and "total_capital l = market_cap l + deuda_total l"
    and "total_capital l \<noteq> 0"
    and "ke l = rf + beta l * equity_risk_premium"
    and "kd l = (if deuda_total l \<noteq> 0 then gastos_intereses l / deuda_total l else 0)"
    and "tasa_impuestos l = (if ebt l \<noteq> 0 then impuestos l / ebt l else 0.21)"
    and "wacc l = (market_cap l / total_capital l) * ke l
                  + ((deuda_total l / total_capital l) * kd l * (1 - tasa_impuestos l))"
    and "nopat l = ebit l * (1 - tasa_impuestos l)"
    and "roic l = (if capital_invertido l \<noteq> 0 then nopat l / capital_invertido l else 0)"
    and "diferencia_roic_wacc l = roic l - wacc l"
    and "creando_valor l = (roic l > wacc l)"
proof -
  have nz: "get_or (info_num raw) ''marketCap'' 0
      + get_or (balance_sheet raw) ''Total Debt'' 0 \<noteq> 0"
    using assms by (simp add: wacc_roic_body_eq split: if_splits)
  have l: "l = projr (wacc_roic_body g raw)"
    using assms by simp
  note body = wacc_roic_body_eq [of g raw, simplified nz if_False]
  show "market_cap l = get_or (info_num raw) ''marketCap'' 0"
    unfolding l body by simp
  show "beta l = get_or (info_num raw) ''beta'' 1"
    unfolding l body by simp
  show "deuda_total l = get_or (balance_sheet raw) ''Total Debt'' 0"
    unfolding l body by simp
  show "ebt l = get_or (financials raw) ''Ebt'' 0"
    unfolding l body by simp
  show "ebit l = get_or (financials raw) ''EBIT'' 0"
    unfolding l body by simp
  show "impuestos l = get_or (financials raw) ''Income Tax Expense'' 0"
    unfolding l body by simp
  show "gastos_intereses l = get_or (financials raw) ''Interest Expense'' 0"
    unfolding l body by simp
  show "total_capital l = market_cap l + deuda_total l"
    unfolding l body by simp
  show "total_capital l \<noteq> 0"
    unfolding l body using nz by simp
  show "ke l = rf + beta l * equity_risk_premium"
    unfolding l body by simp
  show "kd l = (if deuda_total l \<noteq> 0 then gastos_intereses l / deuda_total l else 0)"
    unfolding l body by simp
  show "tasa_impuestos l = (if ebt l \<noteq> 0 then impuestos l / ebt l else 0.21)"
    unfolding l body by simp
  show "wacc l = (market_cap l / total_capital l) * ke l
                  + ((deuda_total l / total_capital l) * kd l * (1 - tasa_impuestos l))"
    unfolding l body by simp
  show "nopat l = ebit l * (1 - tasa_impuestos l)"
    unfolding l body by simp
  show "roic l = (if capital_invertido l \<noteq> 0 then nopat l / capital_invertido l else 0)"
    unfolding l body by simp
  show "diferencia_roic_wacc l = roic l - wacc l"
    unfolding l body by simp
  show "creando_valor l = (roic l > wacc l)"
    unfolding l body by simp
qed

lemma ejemplo_capital_body: "wacc_roic_body g ejemplo_capital = Inr ejemplo_capital_locals"
  by (simp add: wacc_roic_body_eq ejemplo_capital_def ejemplo_capital_locals_def get_or_def
        rf_def equity_risk_premium_def)

lemma price_to_fcf_no_zero_division: "price_to_fcf price fcf shares \<noteq> Inl ZeroDivisionError"
  by (auto simp: price_to_fcf_def truthy_def py_truediv_def py_div_def and_then_def
           split: option.splits)

lemma obtener_try_no_zero_division:
  assumes "yf ticker = Inr raw"
  shows "obtener_try g yf ticker \<noteq> Inl ZeroDivisionError"
proof -
  have "price_to_fcf p f s = Inl e \<Longrightarrow> e \<noteq> ZeroDivisionError" for p f s e
    using price_to_fcf_no_zero_division by metis
  then show ?thesis
    using assms
    by (auto simp: obtener_try_def and_then_def Let_def split: sum.splits prod.splits)
qed

section \<open>The ratio extractor\<close>

lemma price_to_fcf_None: "truthy fcf \<Longrightarrow> truthy shares \<Longrightarrow> price_to_fcf None fcf shares = Inl TypeError"
  by (auto simp: price_to_fcf_def truthy_def py_truediv_def py_div_def and_then_def
      split: option.splits)

lemma price_to_fcf_Some:
  "price_to_fcf (Some p) fcf shares =
     Inr (case fcf of None \<Rightarrow> None
          | Some f \<Rightarrow> (case shares of None \<Rightarrow> None
                      | Some s \<Rightarrow> if f \<noteq> 0 \<and> s \<noteq> 0 then Some (p / (f / s)) else None))"
  by (auto simp: price_to_fcf_def truthy_def py_truediv_def py_div_def and_then_def
      split: option.splits)

lemma obtener_try_price_to_fcf:
  assumes "yf ticker = Inr raw"
  shows "map_sum id P_FCF (obtener_try g yf ticker)
       = price_to_fcf (info_num raw ''currentPrice'') (cashflow raw ''Free Cash Flow'')
           (info_num raw ''sharesOutstanding'')"
  using assms
  by (simp add: obtener_try_def and_then_def Let_def split: sum.splits prod.splits)






section \<open>The batch loop as one pass over the tickers\<close>

lemma set_primeras [simp]: "set (primeras xs) = set xs"
  by (induction xs) auto

lemma distinct_primeras [simp]: "distinct (primeras xs)"
  by (induction xs) (auto simp: distinct_removeAll)

lemma primeras_distinct: "distinct xs \<Longrightarrow> primeras xs = xs"
  by (induction xs) auto

lemma length_primeras: "length (primeras xs) = card (set xs)"
  using distinct_card [of "primeras xs"] by simp

lemma map_of_dict_set: "map_of (dict_set d k v) = (map_of d)(k \<mapsto> v)"
  by (induction d k v rule: dict_set.induct) auto

lemma keys_dict_set:
  "map fst (dict_set d k v) = (if k \<in> set (map fst d) then map fst d else map fst d @ [k])"
  by (induction d k v rule: dict_set.induct) auto

lemma keys_procesar_lote:
  "map fst (procesar_lote g w pos ts res)
     = map fst res @ filter (\<lambda>t. t \<notin> set (map fst res)) (primeras ts)"
proof (induction ts arbitrary: pos res)
  case Nil
  then show ?case by simp
next
  case (Cons t ts)
  let ?v = "obtener_datos_financieros g (w pos) t"
  show ?case
  proof (cases "t \<in> set (map fst res)")
    case True
    then have k: "map fst (dict_set res t ?v) = map fst res"
      by (simp add: keys_dict_set)
    have "filter (\<lambda>u. u \<notin> set (map fst res)) (removeAll t (primeras ts))
        = filter (\<lambda>u. u \<notin> set (map fst res)) (primeras ts)"
      using True by (auto simp: removeAll_filter_not_eq intro: filter_cong)
    with True show ?thesis
      by (simp add: Cons.IH k del: set_map)
  next
    case False
    then have k: "map fst (dict_set res t ?v) = map fst res @ [t]"
      by (simp add: keys_dict_set)
    have "filter (\<lambda>u. u \<notin> set (map fst res @ [t])) (primeras ts)
        = filter (\<lambda>u. u \<notin> set (map fst res)) (removeAll t (primeras ts))"
      by (auto simp: removeAll_filter_not_eq intro: filter_cong)
    with False show ?thesis
      by (simp add: Cons.IH k del: set_map set_append)
  qed
qed

lemma map_of_procesar_lote:
  "map_of (procesar_lote g w pos ts res) t
     = (if t \<in> set ts then Some (obtener_datos_financieros g (w (pos + ultima_pos ts t)) t)
        else map_of res t)"
  by (induction ts arbitrary: pos res) (auto simp: map_of_dict_set)

lemma procesar_lote_append:
  "procesar_lote g w pos (xs @ ys) res
     = procesar_lote g w (pos + length xs) ys (procesar_lote g w pos xs res)"
  by (induction xs arbitrary: pos res) auto

lemma procesar_lotes_eq:
  "procesar_lotes g w tickers batch_start res
     = procesar_lote g w batch_start (drop batch_start tickers) res"
proof (induction g w tickers batch_start res rule: procesar_lotes.induct)
  case (1 g w tickers batch_start res)
  show ?case
  proof (cases "batch_start < length tickers")
    case False
    then show ?thesis by (subst procesar_lotes.simps) simp
  next
    case True
    define batch where
      "batch = take (min (batch_start + batch_size) (length tickers) - batch_start)
                 (drop batch_start tickers)"
    have split: "drop batch_start tickers = batch @ drop (batch_start + batch_size) tickers"
    proof (cases "batch_start + batch_size \<le> length tickers")
      case True
      then have "batch = take batch_size (drop batch_start tickers)"
        by (simp add: batch_def min_def)
      then show ?thesis
        using append_take_drop_id [of batch_size "drop batch_start tickers"]
        by (simp only: drop_drop add.commute)
    next
      case False
      then have "batch = drop batch_start tickers"
        by (simp add: batch_def min_def)
      with False show ?thesis by simp
    qed
    have rest: "procesar_lote g w (batch_start + length batch)
                  (drop (batch_start + batch_size) tickers) r
              = procesar_lote g w (batch_start + batch_size)
                  (drop (batch_start + batch_size) tickers) r" for r
    proof (cases "batch_start + batch_size \<le> length tickers")
      case True
      then have "length batch = batch_size" by (auto simp: batch_def min_def)
      then show ?thesis by simp
    next
      case False
      then show ?thesis by simp
    qed
    have "procesar_lotes g w tickers batch_start res
        = procesar_lotes g w tickers (batch_start + batch_size)
            (procesar_lote g w batch_start batch res)"
      using True by (subst procesar_lotes.simps) (simp add: Let_def batch_def)
    also have "\<dots> = procesar_lote g w (batch_start + batch_size)
            (drop (batch_start + batch_size) tickers)
            (procesar_lote g w batch_start batch res)"
      using True by (simp add: "1.IH" batch_def)
    also have "\<dots> = procesar_lote g w batch_start (drop batch_start tickers) res"
      by (subst split) (simp only: procesar_lote_append rest)
    finally show ?thesis .
  qed
qed

lemma procesar_eq: "procesar g w tickers = procesar_lote g w 0 tickers []"
  by (simp only: procesar_def procesar_lotes_eq drop_0)

lemma keys_procesar: "map fst (procesar g w tickers) = primeras tickers"
  by (simp add: procesar_eq keys_procesar_lote)

lemma map_of_procesar:
  "map_of (procesar g w tickers) t
     = (if t \<in> set tickers
        then Some (obtener_datos_financieros g (w (ultima_pos tickers t)) t) else None)"
  by (simp add: procesar_eq map_of_procesar_lote)

lemma values_by_keys:
  "distinct (map fst d) \<Longrightarrow> map snd d = map (\<lambda>k. the (map_of d k)) (map fst d)"
proof (induction d)
  case Nil
  then show ?case by simp
next
  case (Cons a d)
  obtain k v where a: "a = (k, v)" by (cases a)
  from Cons.prems have nk: "k \<notin> fst ` set d" and dd: "distinct (map fst d)"
    by (simp_all add: a)
  have "map (\<lambda>x. the (map_of ((k, v) # d) x)) (map fst d)
      = map (\<lambda>x. the (map_of d x)) (map fst d)"
    using nk by (intro map_cong) auto
  with Cons.IH [OF dd] show ?case by (simp add: a)
qed

lemma values_procesar:
  "dict_values (procesar g w tickers)
     = map (\<lambda>t. obtener_datos_financieros g (w (ultima_pos tickers t)) t) (primeras tickers)"
proof -
  have "distinct (map fst (procesar g w tickers))"
    by (simp only: keys_procesar distinct_primeras)
  then have "map snd (procesar g w tickers)
      = map (\<lambda>k. the (map_of (procesar g w tickers) k)) (map fst (procesar g w tickers))"
    by (rule values_by_keys)
  then have "dict_values (procesar g w tickers)
      = map (\<lambda>k. the (map_of (procesar g w tickers) k)) (primeras tickers)"
    by (simp only: dict_values_def keys_procesar)
  also have "\<dots> = map (\<lambda>t. obtener_datos_financieros g (w (ultima_pos tickers t)) t)
                       (primeras tickers)"
    by (rule map_cong) (simp_all add: map_of_procesar)
  finally show ?thesis .
qed

lemma obtener_fetch_error:
  "yf ticker = Inl e \<Longrightarrow> obtener_datos_financieros g yf ticker = Error ticker e"
  by (simp add: obtener_datos_financieros_def obtener_try_def and_then_def)

lemma obtener_sin_error:
  assumes "yf ticker = Inr raw" and "info_num raw ''currentPrice'' = Some p"
  shows "sin_error (obtener_datos_financieros g yf ticker)"
proof -
  have "map_sum id P_FCF (obtener_try g yf ticker)
      = price_to_fcf (Some p) (cashflow raw ''Free Cash Flow'') (info_num raw ''sharesOutstanding'')"
    using obtener_try_price_to_fcf [where yf = yf and ticker = ticker and raw = raw and g = g]
      assms by simp
  then show ?thesis
    by (cases "obtener_try g yf ticker")
       (simp_all add: price_to_fcf_Some obtener_datos_financieros_def)
qed

lemma procesar_not_Nil: "tickers \<noteq> [] \<Longrightarrow> procesar g w tickers \<noteq> []"
proof
  assume "tickers \<noteq> []" and "procesar g w tickers = []"
  then have "primeras tickers = []" using keys_procesar [of g w tickers] by simp
  then have "set tickers = {}" using set_primeras [of tickers] by simp
  with \<open>tickers \<noteq> []\<close> show False by simp
qed

lemma parse_ejemplo: "parse_tickers ''bad1, bad2'' 50 = [''BAD1'', ''BAD2'']"
  by code_simp

lemma parse_duplicado: "parse_tickers '' aapl,AAPL ,msft,'' 50 = [''AAPL'', ''AAPL'', ''MSFT'']"
  by code_simp

lemma mundo_bad_good:
  "t \<noteq> ''BAD'' \<Longrightarrow> sin_error (obtener_datos_financieros g (mundo_bad n) t)"
  by (rule obtener_sin_error [where raw = ejemplo_capital and p = 5])
     (simp_all add: mundo_bad_def ejemplo_capital_def)

section \<open>The claims about the calculator\<close>

text \<open>
  C1. When the market capitalisation and the total debt are both zero (absent or present
  with the value 0), the division by the total capital raises \<^verbatim>\<open>ZeroDivisionError\<close>
  inside the \<^verbatim>\<open>try\<close> block, the handler turns it into three absent values
  (no WACC, no ROIC, no spread), and the caller's own block does not end in a
  division by zero.
\<close>

theorem zero_capital_unavailable:
  assumes "yf ticker = Inr raw"
    and "get_or (info_num raw) ''marketCap'' 0 = 0"
    and "get_or (balance_sheet raw) ''Total Debt'' 0 = 0"
  shows "wacc_roic_try g yf ticker = Inl ZeroDivisionError
       \<and> calcular_wacc_y_roic g yf ticker = (None, None, None)
       \<and> obtener_try g yf ticker \<noteq> Inl ZeroDivisionError"
proof -
  have body: "wacc_roic_body g raw = Inl ZeroDivisionError"
    using assms(2,3)
    by (simp add: wacc_roic_body_def Let_def and_then_def py_div_def)
  then have t: "wacc_roic_try g yf ticker = Inl ZeroDivisionError"
    using assms(1) by (simp add: wacc_roic_try_def and_then_def)
  then have "calcular_wacc_y_roic g yf ticker = (None, None, None)"
    by (simp add: calcular_wacc_y_roic_def)
  moreover have "obtener_try g yf ticker \<noteq> Inl ZeroDivisionError"
    using assms(1) by (rule obtener_try_no_zero_division)
  ultimately show ?thesis using t by simp
qed

theorem zero_capital_unavailable_witness:
  "wacc_roic_try initial_params (\<lambda>t. Inr ejemplo_vacio) ''ACME'' = Inl ZeroDivisionError
   \<and> calcular_wacc_y_roic initial_params (\<lambda>t. Inr ejemplo_vacio) ''ACME'' = (None, None, None)
   \<and> obtener_try initial_params (\<lambda>t. Inr ejemplo_vacio) ''ACME'' \<noteq> Inl ZeroDivisionError"
  using zero_capital_unavailable [of "\<lambda>t. Inr ejemplo_vacio" "''ACME''" ejemplo_vacio initial_params]
  by (simp add: ejemplo_vacio_def get_or_def)

text \<open>
  C2. The calculator does not read the three configured parameters \<^verbatim>\<open>Rf\<close>, \<^verbatim>\<open>Rm\<close>
  and \<^verbatim>\<open>Tc\<close>: for any two settings all its local results (cost of equity, WACC, ROIC,
  spread) and its returned triple coincide, and the cost of equity is built from the
  constants 0.02 and 0.05.
\<close>

theorem wacc_ignores_params:
  "wacc_roic_body g1 raw = wacc_roic_body g2 raw
   \<and> calcular_wacc_y_roic g1 yf ticker = calcular_wacc_y_roic g2 yf ticker
   \<and> (wacc_roic_body g1 raw = Inr l \<longrightarrow>
        ke l = 0.02 + get_or (info_num raw) ''beta'' 1 * 0.05)"
proof -
  have b: "wacc_roic_body g1 r = wacc_roic_body g2 r" for r
    by (simp only: wacc_roic_body_eq)
  then have "wacc_roic_try g1 yf ticker = wacc_roic_try g2 yf ticker"
    by (simp add: wacc_roic_try_def and_then_def split: sum.splits)
  then have c: "calcular_wacc_y_roic g1 yf ticker = calcular_wacc_y_roic g2 yf ticker"
    by (simp add: calcular_wacc_y_roic_def)
  have k: "ke l = 0.02 + get_or (info_num raw) ''beta'' 1 * 0.05"
    if "wacc_roic_body g1 raw = Inr l"
    using wacc_roic_body_Inr(2,10) [OF that]
    by (simp add: rf_def equity_risk_premium_def)
  from b c k show ?thesis by blast
qed

theorem wacc_ignores_params_witness:
  "wacc_roic_body initial_params ejemplo_capital = wacc_roic_body otros_params ejemplo_capital
   \<and> calcular_wacc_y_roic initial_params (\<lambda>t. Inr ejemplo_capital) ''ACME''
     = calcular_wacc_y_roic otros_params (\<lambda>t. Inr ejemplo_capital) ''ACME''
   \<and> wacc_roic_body initial_params ejemplo_capital = Inr ejemplo_capital_locals
   \<and> ke ejemplo_capital_locals = 0.07"
  using wacc_ignores_params [of initial_params ejemplo_capital otros_params
      "\<lambda>t. Inr ejemplo_capital" "''ACME''" ejemplo_capital_locals]
  by (simp add: ejemplo_capital_body ejemplo_capital_locals_def)





section \<open>The claims about the spread and the ratios\<close>



text \<open>
  C4. Tolerance to one absent field does not hold for the price: tables that have a free
  cash flow and a share count but no \<^verbatim>\<open>currentPrice\<close> make line 120 divide
  \<^verbatim>\<open>None\<close>, the \<^verbatim>\<open>TypeError\<close> ends in the handler, and the ticker gets the failure
  dictionary. The same tables with a price give a row with P/FCF = 0.5.
\<close>

theorem missing_price_aborts:
  "obtener_datos_financieros initial_params (siempre ejemplo_sin_precio) ''ACME''
     = Error ''ACME'' TypeError
   \<and> map_option P_FCF (fila (obtener_datos_financieros initial_params
         (siempre ejemplo_con_precio) ''ACME'')) = Some (Some (1 / 2))"
proof -
  have a: "map_sum id P_FCF (obtener_try initial_params (siempre ejemplo_sin_precio) ''ACME'')
       = Inl TypeError"
    by (subst obtener_try_price_to_fcf [of _ _ ejemplo_sin_precio])
       (simp_all add: siempre_def ejemplo_sin_precio_def price_to_fcf_None truthy_def)
  have b: "map_sum id P_FCF (obtener_try initial_params (siempre ejemplo_con_precio) ''ACME'')
       = Inr (Some (1 / 2))"
    by (subst obtener_try_price_to_fcf [of _ _ ejemplo_con_precio])
       (simp_all add: siempre_def ejemplo_con_precio_def price_to_fcf_Some)
  from a have "obtener_datos_financieros initial_params (siempre ejemplo_sin_precio) ''ACME''
     = Error ''ACME'' TypeError"
    by (cases "obtener_try initial_params (siempre ejemplo_sin_precio) ''ACME''")
       (simp_all add: obtener_datos_financieros_def)
  moreover from b have "map_option P_FCF (fila (obtener_datos_financieros initial_params
         (siempre ejemplo_con_precio) ''ACME'')) = Some (Some (1 / 2))"
    by (cases "obtener_try initial_params (siempre ejemplo_con_precio) ''ACME''")
       (simp_all add: obtener_datos_financieros_def)
  ultimately show ?thesis by simp
qed

text \<open>
  C5. With the price present, the extraction succeeds and P/FCF is
  price / (free cash flow / shares) exactly when the free cash flow and the share count
  are both present and both nonzero; otherwise P/FCF is absent.
\<close>

theorem pfcf_when_price_present:
  assumes "yf ticker = Inr raw" and "info_num raw ''currentPrice'' = Some p"
  shows "\<exists>d. obtener_datos_financieros g yf ticker = Row d
          \<and> P_FCF d =
             (case cashflow raw ''Free Cash Flow'' of None \<Rightarrow> None
              | Some f \<Rightarrow> (case info_num raw ''sharesOutstanding'' of None \<Rightarrow> None
                          | Some s \<Rightarrow> if f \<noteq> 0 \<and> s \<noteq> 0 then Some (p / (f / s)) else None))"
proof -
  have "map_sum id P_FCF (obtener_try g yf ticker)
       = Inr (case cashflow raw ''Free Cash Flow'' of None \<Rightarrow> None
              | Some f \<Rightarrow> (case info_num raw ''sharesOutstanding'' of None \<Rightarrow> None
                          | Some s \<Rightarrow> if f \<noteq> 0 \<and> s \<noteq> 0 then Some (p / (f / s)) else None))"
    by (simp only: obtener_try_price_to_fcf [where yf = yf and ticker = ticker and raw = raw, OF assms(1)] assms(2) price_to_fcf_Some)
  then show ?thesis
    by (cases "obtener_try g yf ticker") (simp_all add: obtener_datos_financieros_def)
qed

theorem pfcf_when_price_present_witness:
  "siempre ejemplo_con_precio ''ACME'' = Inr ejemplo_con_precio
   \<and> info_num ejemplo_con_precio ''currentPrice'' = Some 5
   \<and> (\<exists>d. obtener_datos_financieros initial_params (siempre ejemplo_con_precio) ''ACME'' = Row d
          \<and> P_FCF d = Some (1 / 2))"
proof -
  have h: "siempre ejemplo_con_precio ''ACME'' = Inr ejemplo_con_precio"
    "info_num ejemplo_con_precio ''currentPrice'' = Some 5"
    by (simp_all add: siempre_def ejemplo_con_precio_def)
  have v: "cashflow ejemplo_con_precio ''Free Cash Flow'' = Some 100"
    "info_num ejemplo_con_precio ''sharesOutstanding'' = Some 10"
    by (simp_all add: ejemplo_con_precio_def)
  from pfcf_when_price_present [where yf = "siempre ejemplo_con_precio" and ticker = "''ACME''"
      and raw = ejemplo_con_precio and p = 5 and g = initial_params, OF h] h show ?thesis
    by (simp add: v)
qed

text \<open>
  A free cash flow that is present and zero, with ten shares, leaves P/FCF absent.
\<close>

theorem pfcf_zero_fcf_counterexample:
  "cashflow ejemplo_fcf_cero ''Free Cash Flow'' = Some 0
   \<and> info_num ejemplo_fcf_cero ''sharesOutstanding'' = Some 10
   \<and> info_num ejemplo_fcf_cero ''currentPrice'' = Some 5
   \<and> map_option P_FCF (fila (obtener_datos_financieros initial_params
         (siempre ejemplo_fcf_cero) ''ACME'')) = Some None"
proof -
  have b: "map_sum id P_FCF (obtener_try initial_params (siempre ejemplo_fcf_cero) ''ACME'')
       = Inr None"
    by (subst obtener_try_price_to_fcf [of _ _ ejemplo_fcf_cero])
       (simp_all add: siempre_def ejemplo_fcf_cero_def price_to_fcf_Some)
  then have "map_option P_FCF (fila (obtener_datos_financieros initial_params
         (siempre ejemplo_fcf_cero) ''ACME'')) = Some None"
    by (cases "obtener_try initial_params (siempre ejemplo_fcf_cero) ''ACME''")
       (simp_all add: obtener_datos_financieros_def)
  then show ?thesis by (simp add: ejemplo_fcf_cero_def)
qed

section \<open>The claims about the batch and the report\<close>

text \<open>
  C6. Failure isolation. Every ticker of the input has an entry in \<^verbatim>\<open>resultados\<close>, and
  the entry is what \<^verbatim>\<open>obtener_datos_financieros\<close> returned when that ticker was last
  processed, whatever happened to the others; when the fetch of that ticker raised, the
  entry is the failure dictionary with the error. For the input GOOD, BAD, GOOD2, where
  the fetch of BAD raises and the other two give rows, the values are two rows and one
  failure, in the order of the input.
\<close>

theorem failure_isolation:
  "(t \<in> set tickers \<and> w (ultima_pos tickers t) t = Inl e \<longrightarrow>
      map_of (procesar g w tickers) t = Some (Error t e))
   \<and> (u \<in> set tickers \<longrightarrow>
      map_of (procesar g w tickers) u
        = Some (obtener_datos_financieros g (w (ultima_pos tickers u)) u))
   \<and> (w 1 ''BAD'' = Inl e
        \<and> sin_error (obtener_datos_financieros g (w 0) ''GOOD'')
        \<and> sin_error (obtener_datos_financieros g (w 2) ''GOOD2'') \<longrightarrow>
      map fst (procesar g w [''GOOD'', ''BAD'', ''GOOD2'']) = [''GOOD'', ''BAD'', ''GOOD2'']
      \<and> dict_values (procesar g w [''GOOD'', ''BAD'', ''GOOD2''])
          = [obtener_datos_financieros g (w 0) ''GOOD'', Error ''BAD'' e,
             obtener_datos_financieros g (w 2) ''GOOD2'']
      \<and> length (filter sin_error (dict_values (procesar g w [''GOOD'', ''BAD'', ''GOOD2'']))) = 2
      \<and> length (filter (\<lambda>d. \<not> sin_error d)
            (dict_values (procesar g w [''GOOD'', ''BAD'', ''GOOD2'']))) = 1)"
proof (intro conjI impI)
  assume "t \<in> set tickers \<and> w (ultima_pos tickers t) t = Inl e"
  then show "map_of (procesar g w tickers) t = Some (Error t e)"
    by (simp add: map_of_procesar obtener_fetch_error)
next
  assume "u \<in> set tickers"
  then show "map_of (procesar g w tickers) u
        = Some (obtener_datos_financieros g (w (ultima_pos tickers u)) u)"
    by (simp add: map_of_procesar)
next
  show "map fst (procesar g w [''GOOD'', ''BAD'', ''GOOD2'']) = [''GOOD'', ''BAD'', ''GOOD2'']"
    by (simp add: keys_procesar)
next
  assume a: "w 1 ''BAD'' = Inl e
        \<and> sin_error (obtener_datos_financieros g (w 0) ''GOOD'')
        \<and> sin_error (obtener_datos_financieros g (w 2) ''GOOD2'')"
  then have bad: "obtener_datos_financieros g (w (Suc 0)) ''BAD'' = Error ''BAD'' e"
    by (simp add: obtener_fetch_error)
  have v: "dict_values (procesar g w [''GOOD'', ''BAD'', ''GOOD2''])
          = [obtener_datos_financieros g (w 0) ''GOOD'', Error ''BAD'' e,
             obtener_datos_financieros g (w 2) ''GOOD2'']"
    by (simp add: values_procesar bad numeral_2_eq_2)
  show "dict_values (procesar g w [''GOOD'', ''BAD'', ''GOOD2''])
          = [obtener_datos_financieros g (w 0) ''GOOD'', Error ''BAD'' e,
             obtener_datos_financieros g (w 2) ''GOOD2'']"
    by (rule v)
  show "length (filter sin_error (dict_values (procesar g w [''GOOD'', ''BAD'', ''GOOD2'']))) = 2"
    using a by (simp add: v)
  show "length (filter (\<lambda>d. \<not> sin_error d)
            (dict_values (procesar g w [''GOOD'', ''BAD'', ''GOOD2'']))) = 1"
    using a by (simp add: v)
qed

theorem failure_isolation_witness:
  "''BAD'' \<in> set [''GOOD'', ''BAD'', ''GOOD2'']
   \<and> mundo_bad (ultima_pos [''GOOD'', ''BAD'', ''GOOD2''] ''BAD'') ''BAD''
       = Inl (SourceError ''sin datos'')
   \<and> map_of (procesar initial_params mundo_bad [''GOOD'', ''BAD'', ''GOOD2'']) ''BAD''
       = Some (Error ''BAD'' (SourceError ''sin datos''))
   \<and> ''GOOD2'' \<in> set [''GOOD'', ''BAD'', ''GOOD2'']
   \<and> map_of (procesar initial_params mundo_bad [''GOOD'', ''BAD'', ''GOOD2'']) ''GOOD2''
       = Some (obtener_datos_financieros initial_params (mundo_bad 2) ''GOOD2'')
   \<and> sin_error (obtener_datos_financieros initial_params (mundo_bad 0) ''GOOD'')
   \<and> sin_error (obtener_datos_financieros initial_params (mundo_bad 2) ''GOOD2'')
   \<and> map fst (procesar initial_params mundo_bad [''GOOD'', ''BAD'', ''GOOD2''])
       = [''GOOD'', ''BAD'', ''GOOD2'']
   \<and> length (filter sin_error
         (dict_values (procesar initial_params mundo_bad [''GOOD'', ''BAD'', ''GOOD2'']))) = 2
   \<and> length (filter (\<lambda>d. \<not> sin_error d)
         (dict_values (procesar initial_params mundo_bad [''GOOD'', ''BAD'', ''GOOD2'']))) = 1"
proof -
  have p: "ultima_pos [''GOOD'', ''BAD'', ''GOOD2''] ''BAD'' = 1"
    "ultima_pos [''GOOD'', ''BAD'', ''GOOD2''] ''GOOD2'' = 2"
    by simp_all
  have b: "mundo_bad 1 ''BAD'' = Inl (SourceError ''sin datos'')"
    by (simp add: mundo_bad_def)
  have s: "sin_error (obtener_datos_financieros initial_params (mundo_bad 0) ''GOOD'')"
    "sin_error (obtener_datos_financieros initial_params (mundo_bad 2) ''GOOD2'')"
    by (simp_all add: mundo_bad_good)
  from failure_isolation [where t = "''BAD''" and u = "''GOOD2''"
      and tickers = "[''GOOD'', ''BAD'', ''GOOD2'']" and w = mundo_bad
      and e = "SourceError ''sin datos''" and g = initial_params] p b s
  show ?thesis by (simp add: numeral_2_eq_2)
qed

text \<open>
  C7. A run (the button pressed, at least one ticker) whose results are all failure
  dictionaries ends with the error of line 210, not with a table.
\<close>

theorem all_failed_empty_result:
  assumes "analizar ui"
    and "parse_tickers (tickers_input ui) (max_tickers ui) \<noteq> []"
    and "\<forall>d \<in> set (dict_values (procesar (sidebar_params ui) w
            (parse_tickers (tickers_input ui) (max_tickers ui)))). \<not> sin_error d"
  shows "main w ui = EmptyResultError"
proof -
  let ?ts = "parse_tickers (tickers_input ui) (max_tickers ui)"
  let ?res = "procesar (sidebar_params ui) w ?ts"
  have ne: "?res \<noteq> []" using assms(2) by (rule procesar_not_Nil)
  have "filter sin_error (dict_values ?res) = []"
    using assms(3) by (simp add: filter_empty_conv)
  with assms(1,2) ne show ?thesis
    by (simp add: main_def Let_def)
qed

theorem all_failed_empty_result_witness:
  "analizar sidebar_ejemplo
   \<and> parse_tickers (tickers_input sidebar_ejemplo) (max_tickers sidebar_ejemplo)
       = [''BAD1'', ''BAD2'']
   \<and> dict_values (procesar (sidebar_params sidebar_ejemplo) mundo_caido [''BAD1'', ''BAD2''])
       = [Error ''BAD1'' (SourceError ''sin datos''), Error ''BAD2'' (SourceError ''sin datos'')]
   \<and> main mundo_caido sidebar_ejemplo = EmptyResultError"
proof -
  have a: "analizar sidebar_ejemplo" by (simp add: sidebar_ejemplo_def)
  have p: "parse_tickers (tickers_input sidebar_ejemplo) (max_tickers sidebar_ejemplo)
       = [''BAD1'', ''BAD2'']"
    by (simp add: sidebar_ejemplo_def parse_ejemplo)
  have v: "dict_values (procesar (sidebar_params sidebar_ejemplo) mundo_caido [''BAD1'', ''BAD2''])
       = [Error ''BAD1'' (SourceError ''sin datos''), Error ''BAD2'' (SourceError ''sin datos'')]"
    by (simp add: values_procesar obtener_fetch_error mundo_caido_def)
  from all_failed_empty_result [where ui = sidebar_ejemplo and w = mundo_caido] a p v
  show ?thesis by simp
qed

text \<open>
  C10. Duplicated tickers collapse. The keys of \<^verbatim>\<open>resultados\<close> are the distinct tickers
  in the order of their first occurrence, the value of each is the result of its last
  processing, and the number of entries is the number of distinct tickers, which is less
  than the length of the input when a ticker is repeated.
\<close>

theorem duplicate_tickers_collapse:
  "map fst (procesar g w tickers) = primeras tickers
   \<and> distinct (map fst (procesar g w tickers))
   \<and> dict_values (procesar g w tickers)
       = map (\<lambda>t. obtener_datos_financieros g (w (ultima_pos tickers t)) t) (primeras tickers)
   \<and> length (procesar g w tickers) = card (set tickers)
   \<and> (\<not> distinct tickers \<longrightarrow> length (procesar g w tickers) < length tickers)"
proof -
  have k: "map fst (procesar g w tickers) = primeras tickers" by (rule keys_procesar)
  then have d: "distinct (map fst (procesar g w tickers))" by simp
  have "length (procesar g w tickers) = length (map fst (procesar g w tickers))" by simp
  also have "\<dots> = card (set tickers)" by (simp only: k length_primeras)
  finally have l: "length (procesar g w tickers) = card (set tickers)" .
  have "length (procesar g w tickers) < length tickers" if "\<not> distinct tickers"
  proof -
    have "card (set tickers) \<noteq> length tickers" using that card_distinct by blast
    with card_length [of tickers] l show ?thesis by simp
  qed
  with k d l values_procesar [of g w tickers] show ?thesis by blast
qed

theorem duplicate_tickers_collapse_witness:
  "parse_tickers '' aapl,AAPL ,msft,'' 50 = [''AAPL'', ''AAPL'', ''MSFT'']
   \<and> \<not> distinct [''AAPL'', ''AAPL'', ''MSFT'']
   \<and> map fst (procesar initial_params mundo_cambia [''AAPL'', ''AAPL'', ''MSFT''])
       = [''AAPL'', ''MSFT'']
   \<and> dict_values (procesar initial_params mundo_cambia [''AAPL'', ''AAPL'', ''MSFT''])
       = [obtener_datos_financieros initial_params (mundo_cambia 1) ''AAPL'',
          obtener_datos_financieros initial_params (mundo_cambia 2) ''MSFT'']
   \<and> obtener_datos_financieros initial_params (mundo_cambia 0) ''AAPL''
       = Error ''AAPL'' (SourceError ''sin datos'')
   \<and> sin_error (obtener_datos_financieros initial_params (mundo_cambia 1) ''AAPL'')
   \<and> length (procesar initial_params mundo_cambia [''AAPL'', ''AAPL'', ''MSFT'']) = 2"
proof -
  have f: "obtener_datos_financieros initial_params (mundo_cambia 0) ''AAPL''
       = Error ''AAPL'' (SourceError ''sin datos'')"
    by (simp add: obtener_fetch_error mundo_cambia_def)
  have s: "sin_error (obtener_datos_financieros initial_params (mundo_cambia 1) ''AAPL'')"
    by (rule obtener_sin_error [where raw = ejemplo_capital and p = 5])
       (simp_all add: mundo_cambia_def ejemplo_capital_def)
  have c: "card (set [''AAPL'', ''AAPL'', ''MSFT'']) = 2" by simp
  from duplicate_tickers_collapse [where g = initial_params and w = mundo_cambia
      and tickers = "[''AAPL'', ''AAPL'', ''MSFT'']"] f s c parse_duplicado
  show ?thesis by (simp add: numeral_2_eq_2)
qed

end
